theory Spec2Isabelle
  imports Main
begin

section \<open>JavaScript values\<close>

text \<open>
  The values a module can export and a caller can pass. A function object is known by
  what it is: a function supplied from outside (\<open>External\<close>, by reference), a filter
  built by \<open>filters.byProps\<close> (with the number of the call that built it, since every
  call builds a new object), the default \<open>m => m\<close> of a parameter, or the imported
  \<open>NoopComponent\<close>. Arrays, objects and functions are values; objects and functions
  carry their properties as an association list (first binding of a name wins). Numbers
  are kept as integers and \<open>NaN\<close>: the code only tests them for truthiness.
\<close>

datatype fn_code =
    External nat
  | ByProps nat "string list"
  | Identity
  | Noop

datatype jsval =
    JUndefined
  | JNull
  | JBool bool
  | JNum int
  | JNaN
  | JStr string
  | JArray "jsval list"
  | JObj "(string \<times> jsval) list"
  | JFun fn_code "(string \<times> jsval) list"

text \<open>What \<open>if (v)\<close>, \<open>!v\<close> and \<open>a && b\<close> test.\<close>

fun truthy :: "jsval \<Rightarrow> bool" where
  "truthy JUndefined = False"
| "truthy JNull = False"
| "truthy (JBool b) = b"
| "truthy (JNum n) = (n \<noteq> 0)"
| "truthy JNaN = False"
| "truthy (JStr s) = (s \<noteq> [])"
| "truthy (JArray xs) = True"
| "truthy (JObj ps) = True"
| "truthy (JFun c ps) = True"

fun typeof :: "jsval \<Rightarrow> string" where
  "typeof JUndefined = ''undefined''"
| "typeof JNull = ''object''"
| "typeof (JBool b) = ''boolean''"
| "typeof (JNum n) = ''number''"
| "typeof JNaN = ''number''"
| "typeof (JStr s) = ''string''"
| "typeof (JArray xs) = ''object''"
| "typeof (JObj ps) = ''object''"
| "typeof (JFun c ps) = ''function''"

text \<open>
  The key of an element: a decimal numeral without a leading zero, as \<open>"0"\<close> or
  \<open>"12"\<close>.
\<close>

definition is_digit :: "char \<Rightarrow> bool" where
  "is_digit ch = (48 \<le> (of_char ch :: nat) \<and> (of_char ch :: nat) \<le> 57)"

definition array_index :: "string \<Rightarrow> nat option" where
  "array_index p =
     (case p of
        [] \<Rightarrow> None
      | ch # rest \<Rightarrow>
          if list_all is_digit p \<and> (rest = [] \<or> ch \<noteq> CHR ''0'')
          then Some (foldl (\<lambda>a d. 10 * a + (of_char d - 48)) 0 p)
          else None)"

text \<open>
  \<open>v?.[p]\<close>: the property \<open>p\<close> of \<open>v\<close>, \<open>undefined\<close> when \<open>v\<close> is
  \<open>null\<close> or \<open>undefined\<close> or has no such property. An object or a function is
  given with the properties a read finds on it; a string and an array have their
  \<open>length\<close> and their elements. The methods that values inherit from the built-in
  prototypes are not represented. The plain read \<open>v.p\<close> is only made by the code on a
  truthy \<open>v\<close>, where it is the same.
\<close>

fun js_get :: "jsval \<Rightarrow> string \<Rightarrow> jsval" where
  "js_get (JObj ps) p = (case map_of ps p of None \<Rightarrow> JUndefined | Some v \<Rightarrow> v)"
| "js_get (JFun c ps) p = (case map_of ps p of None \<Rightarrow> JUndefined | Some v \<Rightarrow> v)"
| "js_get (JStr s) p =
     (if p = ''length'' then JNum (int (length s))
      else (case array_index p of
              None \<Rightarrow> JUndefined
            | Some i \<Rightarrow> if i < length s then JStr [s ! i] else JUndefined))"
| "js_get (JArray xs) p =
     (if p = ''length'' then JNum (int (length xs))
      else (case array_index p of
              None \<Rightarrow> JUndefined
            | Some i \<Rightarrow> if i < length xs then xs ! i else JUndefined))"
| "js_get v p = JUndefined"

text \<open>
  \<open>a === b\<close> on the values compared here: two function objects are the same object when
  they are the same function (their properties are a snapshot and do not count).
\<close>

fun same_value :: "jsval \<Rightarrow> jsval \<Rightarrow> bool" where
  "same_value (JFun c ps) (JFun d qs) = (c = d)"
| "same_value JNaN b = False"
| "same_value a b = (a = b)"

text \<open>
  What calling a function supplied from outside returns: the callers' predicates,
  callbacks and component transforms are black boxes, taken as a parameter \<open>call\<close>
  of every operation (function reference and argument to result).
\<close>

type_synonym calls = "nat \<Rightarrow> jsval \<Rightarrow> jsval"

text \<open>\<open>filters.byProps(...props)\<close>: both branches test every name for \<open>!== void 0\<close>.\<close>

definition byProps_test :: "string list \<Rightarrow> jsval \<Rightarrow> bool" where
  "byProps_test props m =
     (if length props = 1 then js_get m (props ! 0) \<noteq> JUndefined
      else list_all (\<lambda>p. js_get m p \<noteq> JUndefined) props)"

text \<open>\<open>f(v)\<close> for a function object \<open>f\<close>; callers check \<open>typeof f\<close> first.\<close>

fun apply_fn :: "calls \<Rightarrow> jsval \<Rightarrow> jsval \<Rightarrow> jsval" where
  "apply_fn call (JFun (External n) ps) v = call n v"
| "apply_fn call (JFun (ByProps a props) ps) v = JBool (byProps_test props v)"
| "apply_fn call (JFun Identity ps) v = v"
| "apply_fn call (JFun Noop ps) v = JNull"
| "apply_fn call f v = JUndefined"

section \<open>The module-level state\<close>

datatype error =
    Error string
  | TypeError string
  | Thrown_string string

record module =
  exports :: jsval

type_synonym cache = "(string \<times> module) list"

text \<open>
  The loader instance \<open>wreq\<close>: the module registry \<open>c\<close>, the factories \<open>m\<close> (each by
  the text \<open>toString()\<close> gives), the chunk loader \<open>el\<close> (the error its promise rejects
  with, if any) and the require call \<open>wreq(id)\<close>. Both registries are listed in the
  order \<open>for ... in\<close> visits them.
\<close>

record WebpackInstance =
  wreq_c :: cache
  wreq_m :: "(string \<times> string) list"
  wreq_el :: "string \<Rightarrow> error option"
  wreq_require :: "string \<Rightarrow> jsval"

datatype level = Warn | Err

datatype log_arg =
    LText string
  | LCode "string list"
  | LMatcher string
  | LFilter "jsval list"

record log_entry =
  log_level :: level
  log_err :: error
  log_ctx :: "log_arg list"

text \<open>
  The function a subscription holds: one supplied by the caller, or one of the closures
  this module passes to \<open>waitFor\<close> itself (over the binding of a lazy component, or over
  the inner value of a proxy).
\<close>

datatype callback =
    Supplied jsval
  | ResolveComponent nat jsval "string option"
  | SetInnerValue nat jsval

text \<open>
  An own property of a wrapper: the closure \<open>() => InnerComponent\<close> over a binding, or
  a value copied onto the wrapper.
\<close>

datatype wrapper_prop =
    Getter nat
  | Copied jsval

text \<open>
  The closure of one \<open>findComponent\<close> or \<open>findExportedComponent\<close> call: the variable
  \<open>InnerComponent\<close> and the own properties of the function object \<open>WrapperComponent\<close>.
\<close>

record binding =
  InnerComponent :: jsval
  WrapperComponent :: "(string \<times> wrapper_prop) list"

text \<open>
  The variables of the file (\<open>wreq\<close> and \<open>cache\<close> are \<open>None\<close> while undefined),
  the build flag, and what the operations leave behind outside the file: the entries
  given to the logger, the calls made of outside callbacks, the chunk ids given to
  \<open>wreq.el\<close>, the bindings and proxies created, and a counter for the function objects.
\<close>

record state =
  IS_DEV :: bool
  devToolsOpen :: bool
  wreq :: "WebpackInstance option"
  cache :: "cache option"
  waitForSubscriptions :: "(jsval \<times> callback) list"
  webpackSearchHistory :: "(string \<times> log_arg list) list"
  logged :: "log_entry list"
  invoked :: "(nat \<times> jsval) list"
  el_calls :: "string list"
  bindings :: "binding list"
  proxies :: "jsval list"
  next_fn :: nat

type_synonym 'a result = "(error + 'a) \<times> state"

definition strict :: "state \<Rightarrow> bool" where
  "strict s = (IS_DEV s \<and> \<not> devToolsOpen s)"

definition logger :: "level \<Rightarrow> error \<Rightarrow> log_arg list \<Rightarrow> state \<Rightarrow> state" where
  "logger l e ctx s = s\<lparr>logged := logged s @ [\<lparr>log_level = l, log_err = e, log_ctx = ctx\<rparr>]\<rparr>"

text \<open>\<open>for (const key in cache)\<close>: nothing to visit while \<open>cache\<close> is undefined.\<close>

definition entries :: "cache option \<Rightarrow> cache" where
  "entries co = (case co of None \<Rightarrow> [] | Some ms \<Rightarrow> ms)"

section \<open>Initialisation\<close>

text \<open>
  \<open>_initWebpack(instance)\<close>. The chunk array \<open>instance\<close> is given by what its \<open>push\<close>
  does with the callback \<open>r => wreq = r\<close>: hand it the loader's require function, or
  (a plain array) nothing.
\<close>

definition initWebpack :: "WebpackInstance option \<Rightarrow> state \<Rightarrow> bool result" where
  "initWebpack instance s =
     (if cache s \<noteq> None then (Inl (Thrown_string ''no.''), s)
      else
        let s1 = (case instance of None \<Rightarrow> s | Some r \<Rightarrow> s\<lparr>wreq := Some r\<rparr>) in
        (case wreq s1 of
           None \<Rightarrow> (Inr False, s1)
         | Some w \<Rightarrow> (Inr True, s1\<lparr>cache := Some (wreq_c w)\<rparr>)))"

section \<open>Eager search\<close>

text \<open>
  \<open>find\<close> and \<open>findBulk\<close> are wrapped in the imported \<open>traceFunction\<close>, which times
  and logs a call in dev builds and hands arguments and result through; it is left out.
\<close>

definition handleModuleNotFound :: "string \<Rightarrow> jsval list \<Rightarrow> state \<Rightarrow> unit result" where
  "handleModuleNotFound method flt s =
     (let e = Error (''webpack.'' @ method @ '' found no module'');
          s1 = logger Err e [LText ''Filter:'', LFilter flt] s
      in if IS_DEV s1 \<and> \<not> devToolsOpen s1 then (Inl e, s1) else (Inr (), s1))"

text \<open>
  The loop of \<open>find\<close>. It returns, with the result, the values the filter was called on,
  in the order of the calls.
\<close>

fun find_scan :: "calls \<Rightarrow> jsval \<Rightarrow> cache \<Rightarrow> jsval list \<times> jsval option" where
  "find_scan call flt [] = ([], None)"
| "find_scan call flt ((key, md) # rest) =
     (if \<not> truthy (exports md) then find_scan call flt rest
      else if truthy (apply_fn call flt (exports md))
        then ([exports md], Some (exports md))
      else if \<not> truthy (js_get (exports md) ''default'')
        then (let (tr, r) = find_scan call flt rest in (exports md # tr, r))
      else if truthy (apply_fn call flt (js_get (exports md) ''default''))
        then ([exports md, js_get (exports md) ''default''],
              Some (js_get (exports md) ''default''))
      else (let (tr, r) = find_scan call flt rest
            in (exports md # js_get (exports md) ''default'' # tr, r)))"

definition find_wp :: "calls \<Rightarrow> jsval \<Rightarrow> bool \<Rightarrow> state \<Rightarrow> jsval result" where
  "find_wp call flt isIndirect s =
     (if typeof flt \<noteq> ''function''
        then (Inl (Error (''Invalid filter. Expected a function got '' @ typeof flt)), s)
      else
        (case snd (find_scan call flt (entries (cache s))) of
           Some v \<Rightarrow> (Inr v, s)
         | None \<Rightarrow>
             if \<not> isIndirect then
               (case handleModuleNotFound ''find'' [flt] s of
                  (Inl e, s1) \<Rightarrow> (Inl e, s1)
                | (Inr u, s1) \<Rightarrow> (Inr JNull, s1))
             else (Inr JNull, s)))"

text \<open>The loop of \<open>findAll\<close>, with the values the filter was called on.\<close>

fun findAll_scan :: "calls \<Rightarrow> jsval \<Rightarrow> cache \<Rightarrow> jsval list \<times> jsval list" where
  "findAll_scan call flt [] = ([], [])"
| "findAll_scan call flt ((key, md) # rest) =
     (let (tr, ret) = findAll_scan call flt rest in
      if \<not> truthy (exports md) then (tr, ret)
      else
        let d = js_get (exports md) ''default'';
            r1 = (if truthy (apply_fn call flt (exports md)) then [exports md] else []);
            t2 = (if truthy d then [d] else []);
            r2 = (if truthy d \<and> truthy (apply_fn call flt d) then [d] else [])
        in (exports md # t2 @ tr, r1 @ r2 @ ret))"

definition findAll :: "calls \<Rightarrow> jsval \<Rightarrow> state \<Rightarrow> (jsval list) result" where
  "findAll call flt s =
     (if typeof flt \<noteq> ''function''
        then (Inl (Error (''Invalid filter. Expected a function got '' @ typeof flt)), s)
      else (Inr (snd (findAll_scan call flt (entries (cache s)))), s))"

section \<open>Bulk search\<close>

fun digit_char :: "nat \<Rightarrow> char" where
  "digit_char n = char_of (48 + n)"

fun string_of_nat :: "nat \<Rightarrow> string" where
  "string_of_nat n = (if n < 10 then [digit_char n] else string_of_nat (n div 10) @ [digit_char (n mod 10)])"

datatype bulk_step =
    Raise error
  | Hit nat jsval
  | Miss

text \<open>
  The inner loop of \<open>findBulk\<close> on one module: \<open>j\<close> runs up to the number of filters
  passed, while \<open>filterFns\<close> is the array as the earlier splices have left it. Reading it
  beyond its end gives \<open>undefined\<close>, and calling that is a TypeError.
\<close>

function findBulk_inner :: "calls \<Rightarrow> jsval list \<Rightarrow> nat \<Rightarrow> jsval \<Rightarrow> nat \<Rightarrow> bulk_step" where
  "findBulk_inner call filterFns len ex j =
     (if j < len then
        (let flt = (if j < length filterFns then filterFns ! j else JUndefined) in
         if typeof flt \<noteq> ''function'' then Raise (TypeError ''filter is not a function'')
         else if truthy (apply_fn call flt ex) then Hit j ex
         else if truthy (js_get ex ''default'') \<and> truthy (apply_fn call flt (js_get ex ''default''))
           then Hit j (js_get ex ''default'')
         else findBulk_inner call filterFns len ex (Suc j))
      else Miss)"
  by pat_completeness auto
termination
  by (relation "measure (\<lambda>(call, filterFns, len, ex, j). len - j)") auto

text \<open>\<open>filterFns.splice(j, 1)\<close>.\<close>

definition splice1 :: "'a list \<Rightarrow> nat \<Rightarrow> 'a list" where
  "splice1 xs j = take j xs @ drop (Suc j) xs"

text \<open>
  The outer loop of \<open>findBulk\<close>: the modules still to visit, the filter array, \<open>found\<close>
  and \<open>results\<close> (an array of \<open>len\<close> slots, \<open>None\<close> an empty one).
\<close>

fun findBulk_scan ::
  "calls \<Rightarrow> nat \<Rightarrow> cache \<Rightarrow> jsval list \<Rightarrow> nat \<Rightarrow> jsval option list
     \<Rightarrow> error + (nat \<times> jsval option list)" where
  "findBulk_scan call len [] filterFns found results = Inr (found, results)"
| "findBulk_scan call len ((key, md) # rest) filterFns found results =
     (if \<not> truthy (exports md) then findBulk_scan call len rest filterFns found results
      else
        (case findBulk_inner call filterFns len (exports md) 0 of
           Raise e \<Rightarrow> Inl e
         | Miss \<Rightarrow> findBulk_scan call len rest filterFns found results
         | Hit j v \<Rightarrow>
             if Suc found = len then Inr (Suc found, results[j := Some v])
             else findBulk_scan call len rest (splice1 filterFns j) (Suc found)
                    (results[j := Some v])))"

datatype bulk_result =
    Single jsval
  | Results "jsval option list"

definition findBulk :: "calls \<Rightarrow> jsval list \<Rightarrow> state \<Rightarrow> bulk_result result" where
  "findBulk call filterFns s =
     (let len = length filterFns in
      if len = 0 then (Inl (Error ''Expected at least two filters.''), s)
      else if len = 1 then
        (if IS_DEV s then (Inl (Error ''bulk called with only one filter. Use find''), s)
         else
           (case find_wp call (filterFns ! 0) False s of
              (Inl e, s1) \<Rightarrow> (Inl e, s1)
            | (Inr v, s1) \<Rightarrow> (Inr (Single v), s1)))
      else
        (case findBulk_scan call len (entries (cache s)) filterFns 0 (replicate len None) of
           Inl e \<Rightarrow> (Inl e, s)
         | Inr (found, results) \<Rightarrow>
             if found \<noteq> len then
               (let e = Error (''Got '' @ string_of_nat len @ '' filters, but only found ''
                               @ string_of_nat found @ '' modules!'')
                in if IS_DEV s then
                     (if \<not> devToolsOpen s then (Inl e, s) else (Inr (Results results), s))
                   else (Inr (Results results), logger Warn e [] s))
             else (Inr (Results results), s)))"

section \<open>Subscriptions\<close>

text \<open>\<open>waitForSubscriptions.set(filter, callback)\<close>: a map keyed by the function object.\<close>

fun map_set :: "jsval \<Rightarrow> callback \<Rightarrow> (jsval \<times> callback) list \<Rightarrow> (jsval \<times> callback) list" where
  "map_set k v [] = [(k, v)]"
| "map_set k v ((k', v') # rest) =
     (if same_value k' k then (k', v) # rest else (k', v') # map_set k v rest)"

fun typeof_callback :: "callback \<Rightarrow> string" where
  "typeof_callback (Supplied f) = typeof f"
| "typeof_callback (ResolveComponent n parse prop) = ''function''"
| "typeof_callback (SetInnerValue n cb) = ''function''"

text \<open>
  Calling a function the caller supplied: a call of an outside function is recorded
  (reference and argument) in \<open>invoked\<close>.
\<close>

definition call_supplied :: "calls \<Rightarrow> jsval \<Rightarrow> jsval \<Rightarrow> state \<Rightarrow> jsval result" where
  "call_supplied call f v s =
     (case f of
        JFun (External n) ps \<Rightarrow> (Inr (call n v), s\<lparr>invoked := invoked s @ [(n, v)]\<rparr>)
      | JFun code ps \<Rightarrow> (Inr (apply_fn call f v), s)
      | _ \<Rightarrow> (Inl (TypeError ''callback is not a function''), s))"

text \<open>
  \<open>Object.assign(x, x)\<close>, the call the component callback makes: target and source are
  the object just bound to \<open>InnerComponent\<close>. \<open>undefined\<close> and \<open>null\<close> cannot be
  made an object; a string that is not empty is boxed and the write of its first
  character to index 0 is refused; both are a TypeError. Every other value gets its own
  enumerable properties written with the values they have (properties are writable data
  properties), which changes nothing. The result is the error thrown, if any.
\<close>

fun Object_assign_same :: "jsval \<Rightarrow> error option" where
  "Object_assign_same JUndefined = Some (TypeError ''Cannot convert undefined or null to object'')"
| "Object_assign_same JNull = Some (TypeError ''Cannot convert undefined or null to object'')"
| "Object_assign_same (JStr s) =
     (if s = [] then None
      else Some (TypeError ''Cannot assign to read only property 0 of object [object String]''))"
| "Object_assign_same v = None"

text \<open>
  Modelled from the spec: \<open>NoopComponent\<close> (imported from another file), the no-op
  placeholder component, a function object of its own.
\<close>

definition NoopComponent :: jsval where
  "NoopComponent = JFun Noop []"

text \<open>
  Calling a subscription's callback with the module found. The closure of
  \<open>findComponent\<close> (no property name) and of \<open>findExportedComponent\<close> (the first name):
  \<^verbatim>\<open>const parsedComponent = parse(v); InnerComponent = parsedComponent;
  Object.assign(InnerComponent, parsedComponent);\<close>
  \<open>Object.assign\<close> writes to the object that \<open>InnerComponent\<close> names by then, the parsed
  component; the wrapper of the binding is not its target. When it throws, the binding
  has been replaced already and the error leaves the callback.
  The closure of \<open>proxyInnerWaitFor\<close>: \<open>mod => setInnerValue(callback(mod))\<close>.
\<close>

definition invoke :: "calls \<Rightarrow> callback \<Rightarrow> jsval \<Rightarrow> state \<Rightarrow> jsval result" where
  "invoke call cb v s =
     (case cb of
        Supplied f \<Rightarrow> call_supplied call f v s
      | ResolveComponent n parse prop \<Rightarrow>
          (case call_supplied call parse (case prop of None \<Rightarrow> v | Some p \<Rightarrow> js_get v p) s of
             (Inl e, s1) \<Rightarrow> (Inl e, s1)
           | (Inr parsedComponent, s1) \<Rightarrow>
               (let s2 = s1\<lparr>bindings := (bindings s1)[n := (bindings s1 ! n)\<lparr>InnerComponent := parsedComponent\<rparr>]\<rparr>
                in (case Object_assign_same parsedComponent of
                      Some e \<Rightarrow> (Inl e, s2)
                    | None \<Rightarrow> (Inr JUndefined, s2))))
      | SetInnerValue n f \<Rightarrow>
          (case call_supplied call f v s of
             (Inl e, s1) \<Rightarrow> (Inl e, s1)
           | (Inr x, s1) \<Rightarrow> (Inr JUndefined, s1\<lparr>proxies := (proxies s1)[n := x]\<rparr>)))"

definition push_history :: "bool \<Rightarrow> string \<Rightarrow> log_arg list \<Rightarrow> state \<Rightarrow> state" where
  "push_history cond kind args s =
     (if cond then s\<lparr>webpackSearchHistory := webpackSearchHistory s @ [(kind, args)]\<rparr> else s)"

definition waitFor :: "calls \<Rightarrow> jsval \<Rightarrow> callback \<Rightarrow> bool \<Rightarrow> state \<Rightarrow> jsval result" where
  "waitFor call flt cb isIndirect s =
     (if typeof flt \<noteq> ''function''
        then (Inl (Error (''Invalid filter. Expected a function got '' @ typeof flt)), s)
      else if typeof_callback cb \<noteq> ''function''
        then (Inl (Error (''Invalid callback. Expected a function got '' @ typeof_callback cb)), s)
      else
        let s1 = push_history (IS_DEV s \<and> \<not> isIndirect) ''waitFor'' [LFilter [flt]] s;
            subscribe = (\<lambda>s'. (Inr JUndefined,
                          s'\<lparr>waitForSubscriptions := map_set flt cb (waitForSubscriptions s')\<rparr>))
        in if cache s1 \<noteq> None then
             (case find_wp call flt True s1 of
                (Inl e, s2) \<Rightarrow> (Inl e, s2)
              | (Inr existing, s2) \<Rightarrow>
                  if truthy existing then invoke call cb existing s2 else subscribe s2)
           else subscribe s1)"

section \<open>Lazy values and components\<close>

datatype proxied =
    Unwrapped jsval
  | Proxy nat

text \<open>
  Modelled from the spec: \<open>proxyInner\<close> (imported from another file), a deferred value
  with an internal slot, \<open>undefined\<close> until \<open>setInnerValue\<close> fills it. The slots are
  \<open>proxies\<close>; a new proxy is the next index.
\<close>

definition proxyInner :: "state \<Rightarrow> nat \<times> state" where
  "proxyInner s = (length (proxies s), s\<lparr>proxies := proxies s @ [JUndefined]\<rparr>)"

text \<open>A parameter with a default (\<open>callback = m => m\<close>) takes it when \<open>undefined\<close> is passed.\<close>

definition default_identity :: "jsval \<Rightarrow> jsval" where
  "default_identity f = (if f = JUndefined then JFun Identity [] else f)"

definition proxyInnerWaitFor :: "calls \<Rightarrow> jsval \<Rightarrow> jsval \<Rightarrow> bool \<Rightarrow> state \<Rightarrow> proxied result" where
  "proxyInnerWaitFor call flt callback_arg isIndirect s =
     (let cb = default_identity callback_arg in
      if typeof flt \<noteq> ''function''
        then (Inl (Error (''Invalid filter. Expected a function got '' @ typeof flt)), s)
      else if typeof cb \<noteq> ''function''
        then (Inl (Error (''Invalid callback. Expected a function got '' @ typeof cb)), s)
      else
        let s1 = push_history (IS_DEV s \<and> \<not> isIndirect) ''proxyInnerWaitFor'' [LFilter [flt]] s;
            (n, s2) = proxyInner s1
        in (case waitFor call flt (SetInnerValue n cb) True s2 of
              (Inl e, s3) \<Rightarrow> (Inl e, s3)
            | (Inr u, s3) \<Rightarrow>
                if proxies s3 ! n \<noteq> JUndefined \<and> proxies s3 ! n \<noteq> JNull
                  then (Inr (Unwrapped (proxies s3 ! n)), s3)
                else (Inr (Proxy n), s3)))"

text \<open>
  What \<open>findComponent\<close> returns: the component found, or the function object
  \<open>WrapperComponent\<close> of the binding it made.
\<close>

datatype component =
    Component jsval
  | Wrapper nat

text \<open>
  The part shared by \<open>findComponent\<close> and \<open>findExportedComponent\<close>: the binding, the
  wrapper with its getter, the subscription, and the choice of what to return.
\<close>

definition bind_component ::
  "calls \<Rightarrow> jsval \<Rightarrow> jsval \<Rightarrow> string option \<Rightarrow> state \<Rightarrow> component result" where
  "bind_component call flt parse prop s =
     (let n = length (bindings s);
          s1 = s\<lparr>bindings := bindings s @
                 [\<lparr>InnerComponent = NoopComponent,
                   WrapperComponent = [(''$$vencordGetter'', Getter n)]\<rparr>]\<rparr>
      in (case waitFor call flt (ResolveComponent n parse prop) True s1 of
            (Inl e, s2) \<Rightarrow> (Inl e, s2)
          | (Inr u, s2) \<Rightarrow>
              if \<not> same_value (InnerComponent (bindings s2 ! n)) NoopComponent
                then (Inr (Component (InnerComponent (bindings s2 ! n))), s2)
              else (Inr (Wrapper n), s2)))"

definition findComponent :: "calls \<Rightarrow> jsval \<Rightarrow> jsval \<Rightarrow> bool \<Rightarrow> state \<Rightarrow> component result" where
  "findComponent call flt parse_arg isIndirect s =
     (let parse = default_identity parse_arg in
      if typeof flt \<noteq> ''function''
        then (Inl (Error (''Invalid filter. Expected a function got '' @ typeof flt)), s)
      else if typeof parse \<noteq> ''function''
        then (Inl (Error (''Invalid component parse. Expected a function got '' @ typeof parse)), s)
      else
        bind_component call flt parse None
          (push_history (IS_DEV s \<and> \<not> isIndirect) ''findComponent'' [LFilter [flt]] s))"




section \<open>Factory search and chunk loading\<close>

text \<open>\<open>str.includes(c)\<close>, and \<open>code.join\<close> with a line feed between the items.\<close>

fun str_includes :: "string \<Rightarrow> string \<Rightarrow> bool" where
  "str_includes [] sub = (sub = [])"
| "str_includes (x # xs) sub = (take (length sub) (x # xs) = sub \<or> str_includes xs sub)"

fun join_lines :: "string list \<Rightarrow> string" where
  "join_lines [] = []"
| "join_lines [x] = x"
| "join_lines (x # y # ys) = x @ [CHR 0x0A] @ join_lines (y # ys)"

fun findModuleId_scan :: "string list \<Rightarrow> (string \<times> string) list \<Rightarrow> string option" where
  "findModuleId_scan code [] = None"
| "findModuleId_scan code ((ident, str) # rest) =
     (if list_all (str_includes str) code then Some ident else findModuleId_scan code rest)"

definition no_module_with_code :: "string list \<Rightarrow> error" where
  "no_module_with_code code = Error (''Didn't find module with code(s):'' @ [CHR 0x0A] @ join_lines code)"

text \<open>\<open>findModuleId(...code)\<close>: the id, or \<open>None\<close> for \<open>null\<close>.\<close>

definition findModuleId :: "string list \<Rightarrow> state \<Rightarrow> (string option) result" where
  "findModuleId code s =
     (case wreq s of
        None \<Rightarrow> (Inl (TypeError ''Cannot read properties of undefined (reading 'm')''), s)
      | Some w \<Rightarrow>
          (case findModuleId_scan code (wreq_m w) of
             Some ident \<Rightarrow> (Inr (Some ident), s)
           | None \<Rightarrow>
               (let e = no_module_with_code code
                in if IS_DEV s then
                     (if \<not> devToolsOpen s then (Inl e, s) else (Inr None, s))
                   else (Inr None, logger Warn e [] s))))"

text \<open>\<open>findModuleFactory(...code)\<close>: the factory (its text), or \<open>None\<close> for \<open>null\<close>.\<close>

definition findModuleFactory :: "string list \<Rightarrow> state \<Rightarrow> (string option) result" where
  "findModuleFactory code s =
     (case findModuleId code s of
        (Inl e, s1) \<Rightarrow> (Inl e, s1)
      | (Inr None, s1) \<Rightarrow> (Inr None, s1)
      | (Inr (Some ident), s1) \<Rightarrow>
          if ident = [] then (Inr None, s1)
          else (Inr (case wreq s1 of None \<Rightarrow> None | Some w \<Rightarrow> map_of (wreq_m w) ident), s1))"

text \<open>
  What the language and the imported \<open>canonicalizeMatch\<close> do is taken as parameters:
  \<open>exec matcher str\<close> is \<open>str.match(canonicalizeMatch(matcher))\<close>, the match array
  (whole match first, \<open>None\<close> a group that did not take part) or \<open>None\<close> for no match;
  \<open>toNumber\<close> is \<open>Number\<close> on strings. A matcher is known by its source text.
\<close>

type_synonym regexp_exec = "string \<Rightarrow> string \<Rightarrow> (string option list) option"

definition warn_chunks :: "error \<Rightarrow> string list \<Rightarrow> string \<Rightarrow> state \<Rightarrow> state" where
  "warn_chunks e code matcher s =
     logger Warn e [LText ''Code:'', LCode code, LText ''Matcher:'', LMatcher matcher] s"

text \<open>\<open>if (IS_DEV && !devToolsOpen) throw err; return;\<close>\<close>

definition throw_if_strict :: "error \<Rightarrow> state \<Rightarrow> jsval result" where
  "throw_if_strict e s = (if IS_DEV s \<and> \<not> devToolsOpen s then (Inl e, s) else (Inr JUndefined, s))"

definition no_module_factory :: error where
  "no_module_factory = Error ''extractAndLoadChunks: Couldn't find module factory''"

definition no_entry_point :: error where
  "no_entry_point = Error ''extractAndLoadChunks: Couldn't find entry point id in module factory code''"

definition bad_entry_point :: error where
  "bad_entry_point = Error ''extractAndLoadChunks: Matcher didn't return a capturing group with the entry point, or the entry point returned wasn't a number''"

definition extractAndLoadChunks ::
  "regexp_exec \<Rightarrow> (string \<Rightarrow> jsval) \<Rightarrow> string list \<Rightarrow> string \<Rightarrow> state \<Rightarrow> jsval result" where
  "extractAndLoadChunks exec toNumber code matcher s =
     (case findModuleFactory code s of
        (Inl e, s1) \<Rightarrow> (Inl e, s1)
      | (Inr None, s1) \<Rightarrow>
          (Inr JUndefined,
           warn_chunks no_module_factory code matcher s1)
      | (Inr (Some factory), s1) \<Rightarrow>
          (case exec matcher factory of
             None \<Rightarrow> throw_if_strict no_entry_point (warn_chunks no_entry_point code matcher s1)
           | Some match \<Rightarrow>
               (case (if 1 < length match then match ! 1 else None) of
                  None \<Rightarrow> throw_if_strict bad_entry_point (warn_chunks bad_entry_point code matcher s1)
                | Some ident \<Rightarrow>
                    if ident = [] \<or> \<not> truthy (toNumber ident)
                      then throw_if_strict bad_entry_point (warn_chunks bad_entry_point code matcher s1)
                    else
                      (case wreq s1 of
                         None \<Rightarrow> (Inl (TypeError ''Cannot read properties of undefined (reading 'el')''), s1)
                       | Some w \<Rightarrow>
                           (let s2 = s1\<lparr>el_calls := el_calls s1 @ [ident]\<rparr> in
                            case wreq_el w ident of
                              Some e \<Rightarrow> (Inl e, s2)
                            | None \<Rightarrow> (Inr (wreq_require w ident), s2))))))"

section \<open>Reference definitions and sample inputs\<close>

text \<open>
  The values of a registry that the search offers to a filter, in registry order: of every
  entry with truthy exports, the exports and then, when truthy, \<open>exports.default\<close>.
\<close>

definition candidates :: "cache \<Rightarrow> jsval list" where
  "candidates R =
     concat (map (\<lambda>(key, md).
       if truthy (exports md)
       then exports md # (if truthy (js_get (exports md) ''default'') then [js_get (exports md) ''default''] else [])
       else []) R)"

text \<open>The first of them that the filter accepts.\<close>

definition first_match :: "calls \<Rightarrow> jsval \<Rightarrow> cache \<Rightarrow> jsval option" where
  "first_match call flt R = List.find (\<lambda>v. truthy (apply_fn call flt v)) (candidates R)"

text \<open>
  A module that satisfies the filter, if at all, only by a falsy value: neither its exports
  nor its default is both truthy and accepted.
\<close>

definition only_falsy_satisfies :: "calls \<Rightarrow> jsval \<Rightarrow> module \<Rightarrow> bool" where
  "only_falsy_satisfies call flt md =
     (\<not> (truthy (apply_fn call flt (exports md)) \<and> truthy (exports md)) \<and>
      \<not> (truthy (apply_fn call flt (js_get (exports md) ''default'')) \<and> truthy (js_get (exports md) ''default'')))"

text \<open>
  The state when the file has been loaded (\<open>dev\<close> is the build flag), a loader with
  given registries whose chunk loads succeed, and the state after \<open>_initWebpack\<close> has
  met that loader.
\<close>

definition initial_state :: "bool \<Rightarrow> state" where
  "initial_state dev =
     \<lparr>IS_DEV = dev, devToolsOpen = False, wreq = None, cache = None, waitForSubscriptions = [],
      webpackSearchHistory = [], logged = [], invoked = [], el_calls = [], bindings = [],
      proxies = [], next_fn = 0\<rparr>"

definition sample_instance :: "cache \<Rightarrow> (string \<times> string) list \<Rightarrow> WebpackInstance" where
  "sample_instance R fs =
     \<lparr>wreq_c = R, wreq_m = fs, wreq_el = (\<lambda>ident. None), wreq_require = (\<lambda>ident. JStr ident)\<rparr>"

definition loaded_state :: "bool \<Rightarrow> cache \<Rightarrow> (string \<times> string) list \<Rightarrow> state" where
  "loaded_state dev R fs = snd (initWebpack (Some (sample_instance R fs)) (initial_state dev))"

text \<open>
  Four outside functions: \<open>m => m === "A"\<close>, \<open>m => m === "B"\<close>,
  \<open>m => m === false\<close>, and (every other reference) one that returns nothing.
\<close>

definition sample_call :: calls where
  "sample_call n v =
     (if n = 0 then JBool (v = JStr ''A'')
      else if n = 1 then JBool (v = JStr ''B'')
      else if n = 2 then JBool (v = JBool False)
      else JUndefined)"

definition module_of :: "jsval \<Rightarrow> module" where
  "module_of v = \<lparr>exports = v\<rparr>"

text \<open>A sequence of calls of \<open>_initWebpack\<close>, whatever each returns or throws.\<close>

fun initWebpack_calls :: "WebpackInstance option list \<Rightarrow> state \<Rightarrow> state" where
  "initWebpack_calls [] s = s"
| "initWebpack_calls (instance # rest) s = initWebpack_calls rest (snd (initWebpack instance s))"

text \<open>
  \<open>Number(str)\<close> on a string of decimal digits and on the empty string. The other
  strings \<open>Number\<close> accepts are outside this sample: the operations take the conversion
  as a parameter.
\<close>

definition Number_digits :: "string \<Rightarrow> jsval" where
  "Number_digits str =
     (if list_all (\<lambda>ch. 48 \<le> (of_char ch :: nat) \<and> (of_char ch :: nat) \<le> 57) str
      then JNum (int (foldl (\<lambda>a ch. 10 * a + (of_char ch - 48)) 0 str))
      else JNaN)"

text \<open>
  What the matcher \<open>el[(]([0-9]+)[)]\<close> gives on the two sample factory texts, and
  no match for everything else.
\<close>

definition sample_exec :: regexp_exec where
  "sample_exec matcher str =
     (if matcher = ''el[(]([0-9]+)[)]'' \<and> str = ''e.el(0)'' then Some [Some ''el(0)'', Some ''0'']
      else if matcher = ''el[(]([0-9]+)[)]'' \<and> str = ''e.el(42)'' then Some [Some ''el(42)'', Some ''42'']
      else None)"




section \<open>Properties of the eager search\<close>

lemma array_index_default [simp]: "array_index ''default'' = None"
  by (simp add: array_index_def is_digit_def)

lemma js_get_default_JStr [simp]: "js_get (JStr s) ''default'' = JUndefined"
  by (simp add: array_index_default)

lemma js_get_default_JArray [simp]: "js_get (JArray xs) ''default'' = JUndefined"
  by (simp add: array_index_default)

lemma candidates_Nil: "candidates [] = []"
  by (simp add: candidates_def)

lemma candidates_Cons:
  "candidates ((key, md) # R) =
     (if truthy (exports md)
      then exports md # (if truthy (js_get (exports md) ''default'') then [js_get (exports md) ''default''] else [])
      else []) @ candidates R"
  by (simp add: candidates_def)

lemma candidates_append: "candidates (R1 @ R2) = candidates R1 @ candidates R2"
  by (simp add: candidates_def)

lemma candidates_truthy: "v \<in> set (candidates R) \<Longrightarrow> truthy v"
  by (induction R) (auto simp: candidates_Nil candidates_Cons split: if_splits)

lemma find_scan_first_match: "snd (find_scan call flt R) = first_match call flt R"
  by (induction R) (auto simp: first_match_def candidates_Nil candidates_Cons split: prod.splits)

lemma find_scan_trace_truthy: "v \<in> set (fst (find_scan call flt R)) \<Longrightarrow> truthy v"
  by (induction R arbitrary: v) (auto split: prod.splits if_splits)

lemma findAll_scan_trace_truthy: "v \<in> set (fst (findAll_scan call flt R)) \<Longrightarrow> truthy v"
  by (induction R arbitrary: v) (auto split: prod.splits if_splits simp: Let_def)

lemma findAll_scan_filter:
  "snd (findAll_scan call flt R) = filter (\<lambda>v. truthy (apply_fn call flt v)) (candidates R)"
  by (induction R) (auto simp: candidates_Nil candidates_Cons Let_def split: prod.splits)

lemma list_find_SomeD: "List.find P xs = Some x \<Longrightarrow> P x \<and> x \<in> set xs"
  by (induction xs) (auto split: if_splits)

lemma first_match_Some:
  "first_match call flt R = Some v \<Longrightarrow> truthy v \<and> truthy (apply_fn call flt v) \<and> v \<in> set (candidates R)"
  unfolding first_match_def
  by (auto dest: list_find_SomeD simp: candidates_truthy)

lemma first_match_None:
  "first_match call flt R = None \<longleftrightarrow> (\<forall>v \<in> set (candidates R). \<not> truthy (apply_fn call flt v))"
  unfolding first_match_def by (auto simp: find_None_iff)

lemma find_append:
  "List.find P (xs @ ys) = (case List.find P xs of Some x \<Rightarrow> Some x | None \<Rightarrow> List.find P ys)"
  by (induction xs) auto

lemma first_match_skip:
  assumes "only_falsy_satisfies call flt md"
  shows "first_match call flt (R1 @ (key, md) # R2) = first_match call flt (R1 @ R2)"
  using assms
  by (auto simp: first_match_def candidates_append candidates_Cons find_append only_falsy_satisfies_def
           split: option.splits)

lemma handleModuleNotFound_eq:
  "handleModuleNotFound method fs s =
     (let e = Error (''webpack.'' @ method @ '' found no module'')
      in (if strict s then Inl e else Inr (), logger Err e [LText ''Filter:'', LFilter fs] s))"
  by (simp add: handleModuleNotFound_def strict_def logger_def Let_def)

lemma find_wp_function:
  assumes "typeof flt = ''function''"
  shows "find_wp call flt isIndirect s =
           (case first_match call flt (entries (cache s)) of
              Some v \<Rightarrow> (Inr v, s)
            | None \<Rightarrow>
                if isIndirect then (Inr JNull, s)
                else (if strict s then Inl (Error ''webpack.find found no module'') else Inr JNull,
                      logger Err (Error ''webpack.find found no module'') [LText ''Filter:'', LFilter [flt]] s))"
  using assms
  by (simp add: find_wp_def find_scan_first_match handleModuleNotFound_eq Let_def split: option.splits)

text \<open>
  C2, as amended. For a function \<open>flt\<close>, \<open>find\<close> returns the first value in
  registry order (of each entry with truthy exports: the exports, then the default when it
  is truthy) that the filter accepts; that value is truthy and satisfies the filter. When
  no such value exists, an indirect call returns \<open>null\<close>; a direct call logs the error
  and then returns \<open>null\<close>, or throws the error in a dev build with closed devtools.
\<close>

theorem find_wp_first_match:
  assumes "typeof flt = ''function''"
  shows "find_wp call flt isIndirect s =
           (case first_match call flt (entries (cache s)) of
              Some v \<Rightarrow> (Inr v, s)
            | None \<Rightarrow>
                if isIndirect then (Inr JNull, s)
                else (if strict s then Inl (Error ''webpack.find found no module'') else Inr JNull,
                      logger Err (Error ''webpack.find found no module'') [LText ''Filter:'', LFilter [flt]] s))
         \<and> (\<forall>v. first_match call flt (entries (cache s)) = Some v
                \<longrightarrow> truthy v \<and> truthy (apply_fn call flt v) \<and> v \<in> set (candidates (entries (cache s))))
         \<and> (first_match call flt (entries (cache s)) = None
                \<longleftrightarrow> (\<forall>v \<in> set (candidates (entries (cache s))). \<not> truthy (apply_fn call flt v)))"
proof (intro conjI allI impI)
  show "find_wp call flt isIndirect s =
           (case first_match call flt (entries (cache s)) of
              Some v \<Rightarrow> (Inr v, s)
            | None \<Rightarrow>
                if isIndirect then (Inr JNull, s)
                else (if strict s then Inl (Error ''webpack.find found no module'') else Inr JNull,
                      logger Err (Error ''webpack.find found no module'') [LText ''Filter:'', LFilter [flt]] s))"
    by (rule find_wp_function [OF assms])
next
  fix v
  assume m: "first_match call flt (entries (cache s)) = Some v"
  from first_match_Some [OF m] show "truthy v" by simp
  from first_match_Some [OF m] show "truthy (apply_fn call flt v)" by simp
  from first_match_Some [OF m] show "v \<in> set (candidates (entries (cache s)))" by simp
next
  show "first_match call flt (entries (cache s)) = None
          \<longleftrightarrow> (\<forall>v \<in> set (candidates (entries (cache s))). \<not> truthy (apply_fn call flt v))"
    by (rule first_match_None)
qed

lemma loaded_state_cache: "cache (loaded_state dev R fs) = Some R"
  by (simp add: loaded_state_def initWebpack_def initial_state_def sample_instance_def Let_def)

lemma loaded_state_simps:
  "IS_DEV (loaded_state dev R fs) = dev"
  "devToolsOpen (loaded_state dev R fs) = False"
  "logged (loaded_state dev R fs) = []"
  "wreq (loaded_state dev R fs) = Some (sample_instance R fs)"
  "waitForSubscriptions (loaded_state dev R fs) = []"
  "invoked (loaded_state dev R fs) = []"
  "el_calls (loaded_state dev R fs) = []"
  "bindings (loaded_state dev R fs) = []"
  "proxies (loaded_state dev R fs) = []"
  "webpackSearchHistory (loaded_state dev R fs) = []"
  "next_fn (loaded_state dev R fs) = 0"
  by (simp_all add: loaded_state_def initWebpack_def initial_state_def Let_def)

text \<open>
  The theorem at a registry of two modules, the second matching through its default.
\<close>

theorem find_wp_first_match_witness:
  "typeof (JFun (External 0) []) = ''function''
   \<and> find_wp sample_call (JFun (External 0) []) False
        (loaded_state False [(''1'', module_of (JStr ''C'')), (''2'', module_of (JObj [(''default'', JStr ''A'')]))] [])
     = (Inr (JStr ''A''),
        loaded_state False [(''1'', module_of (JStr ''C'')), (''2'', module_of (JObj [(''default'', JStr ''A'')]))] [])"
  using find_wp_first_match [of "JFun (External 0) []" sample_call False
      "loaded_state False [(''1'', module_of (JStr ''C'')), (''2'', module_of (JObj [(''default'', JStr ''A'')]))] []"]
  by (simp add: loaded_state_cache loaded_state_simps entries_def first_match_def candidates_def module_of_def sample_call_def)

text \<open>
  C2 as stated fails: the default export \<open>false\<close> of the only module satisfies
  \<open>m => m === false\<close>, and \<open>find\<close> returns \<open>null\<close>.
\<close>

theorem find_misses_falsy_default:
  "truthy (apply_fn sample_call (JFun (External 2) [])
             (js_get (exports (module_of (JObj [(''default'', JBool False)]))) ''default''))
   \<and> fst (find_wp sample_call (JFun (External 2) []) False
            (loaded_state False [(''1'', module_of (JObj [(''default'', JBool False)]))] []))
       = Inr JNull"
  by (simp add: find_wp_def loaded_state_cache loaded_state_simps entries_def module_of_def sample_call_def
        handleModuleNotFound_def logger_def)

text \<open>
  C10. \<open>find\<close> and \<open>findAll\<close> call the filter on truthy values only (never on
  falsy exports, never on a falsy default); \<open>find\<close> returns a truthy value or
  \<open>null\<close>; and a module that satisfies the filter only through a falsy value is never
  matched: the results are those of the registry without it.
\<close>

theorem find_skips_falsy:
  "(\<forall>v \<in> set (fst (find_scan call flt R)). truthy v)
   \<and> (\<forall>v \<in> set (fst (findAll_scan call flt R)). truthy v)
   \<and> (\<forall>v s'. find_wp call flt isIndirect s = (Inr v, s') \<longrightarrow> truthy v \<or> v = JNull)
   \<and> (only_falsy_satisfies call flt md \<longrightarrow>
        snd (find_scan call flt (R1 @ (key, md) # R2)) = snd (find_scan call flt (R1 @ R2))
        \<and> snd (findAll_scan call flt (R1 @ (key, md) # R2)) = snd (findAll_scan call flt (R1 @ R2)))"
proof -
  have a: "\<forall>v \<in> set (fst (find_scan call flt R)). truthy v"
    using find_scan_trace_truthy by blast
  have b: "\<forall>v \<in> set (fst (findAll_scan call flt R)). truthy v"
    using findAll_scan_trace_truthy by blast
  have c: "\<forall>v s'. find_wp call flt isIndirect s = (Inr v, s') \<longrightarrow> truthy v \<or> v = JNull"
    by (auto simp: find_wp_def find_scan_first_match handleModuleNotFound_eq Let_def
             split: option.splits if_splits dest: first_match_Some)
  have d: "only_falsy_satisfies call flt md \<longrightarrow>
        snd (find_scan call flt (R1 @ (key, md) # R2)) = snd (find_scan call flt (R1 @ R2))
        \<and> snd (findAll_scan call flt (R1 @ (key, md) # R2)) = snd (findAll_scan call flt (R1 @ R2))"
    by (auto simp: find_scan_first_match first_match_skip findAll_scan_filter candidates_append
          candidates_Cons only_falsy_satisfies_def)
  from a b c d show ?thesis by blast
qed

text \<open>
  The theorem at a registry whose modules export \<open>false\<close> and \<open>{default: false}\<close>,
  searched with \<open>m => m === false\<close>.
\<close>

theorem find_skips_falsy_witness:
  "fst (find_scan sample_call (JFun (External 2) [])
          [(''1'', module_of (JBool False)), (''2'', module_of (JObj [(''default'', JBool False)]))])
     = [JObj [(''default'', JBool False)]]
   \<and> truthy (JObj [(''default'', JBool False)])
   \<and> find_wp sample_call (JFun (External 2) []) True
        (loaded_state False [(''1'', module_of (JBool False)), (''2'', module_of (JObj [(''default'', JBool False)]))] [])
       = (Inr JNull, loaded_state False [(''1'', module_of (JBool False)), (''2'', module_of (JObj [(''default'', JBool False)]))] [])
   \<and> only_falsy_satisfies sample_call (JFun (External 2) []) (module_of (JObj [(''default'', JBool False)]))
   \<and> snd (findAll_scan sample_call (JFun (External 2) [])
            ([(''1'', module_of (JBool False))] @ (''2'', module_of (JObj [(''default'', JBool False)])) # []))
       = []"
  using find_skips_falsy [of sample_call "JFun (External 2) []"
      "[(''1'', module_of (JBool False)), (''2'', module_of (JObj [(''default'', JBool False)]))]"
      True
      "loaded_state False [(''1'', module_of (JBool False)), (''2'', module_of (JObj [(''default'', JBool False)]))] []"
      "module_of (JObj [(''default'', JBool False)])" "[(''1'', module_of (JBool False))]" "''2''" "[]"]
  by (simp add: find_wp_def loaded_state_cache loaded_state_simps entries_def module_of_def sample_call_def
        only_falsy_satisfies_def)

section \<open>Properties of the bulk search\<close>

text \<open>
  C1. \<open>findBulk\<close> should return the match of the i-th filter in slot i. The code
  removes a satisfied filter with \<open>splice\<close>, which moves the later filters down, and
  writes the next match at the moved index. Whenever the first of two filters accepts
  the exports of the first module and the second filter those of the second module,
  slot 0 ends up holding the second filter's match and slot 1 stays empty.
\<close>

theorem findBulk_second_match_in_first_slot:
  assumes "typeof f0 = ''function''" and "typeof f1 = ''function''"
    and "truthy a" and "truthy (apply_fn call f0 a)"
    and "truthy b" and "truthy (apply_fn call f1 b)"
    and "cache s = Some [(k1, \<lparr>exports = a\<rparr>), (k2, \<lparr>exports = b\<rparr>)]"
  shows "findBulk call [f0, f1] s = (Inr (Results [Some b, None]), s)"
proof -
  have i1: "findBulk_inner call [f0, f1] 2 a 0 = Hit 0 a"
    using assms(1,4) by simp
  have i2: "findBulk_inner call [f1] 2 b 0 = Hit 0 b"
    using assms(2,6) by simp
  have "findBulk_scan call 2 [(k1, \<lparr>exports = a\<rparr>), (k2, \<lparr>exports = b\<rparr>)] [f0, f1] 0 [None, None]
          = Inr (2, [Some b, None])"
    using assms(3,5) i1 i2 by (simp add: splice1_def)
  then show ?thesis
    using assms(7) by (simp add: findBulk_def entries_def numeral_2_eq_2)
qed

text \<open>
  The theorem at the filters \<open>m === "A"\<close> and \<open>m === "B"\<close> over the modules
  \<open>"A"\<close>, \<open>"B"\<close>. With a module \<open>"C"\<close> between them, the array (by then one
  filter short) is read beyond its end and the call of \<open>undefined\<close> throws.
\<close>

theorem findBulk_second_match_in_first_slot_witness:
  "findBulk sample_call [JFun (External 0) [], JFun (External 1) []]
          (loaded_state False [(''1'', module_of (JStr ''A'')), (''2'', module_of (JStr ''B''))] [])
     = (Inr (Results [Some (JStr ''B''), None]),
        loaded_state False [(''1'', module_of (JStr ''A'')), (''2'', module_of (JStr ''B''))] [])
   \<and> fst (findBulk sample_call [JFun (External 0) [], JFun (External 1) []]
          (loaded_state False [(''1'', module_of (JStr ''A'')), (''2'', module_of (JStr ''C'')),
                               (''3'', module_of (JStr ''B''))] []))
     = Inl (TypeError ''filter is not a function'')"
proof -
  have c: "cache (loaded_state False [(''1'', module_of (JStr ''A'')), (''2'', module_of (JStr ''B''))] [])
             = Some [(''1'', \<lparr>exports = JStr ''A''\<rparr>), (''2'', \<lparr>exports = JStr ''B''\<rparr>)]"
    by (simp add: loaded_state_cache module_of_def)
  have t: "fst (findBulk sample_call [JFun (External 0) [], JFun (External 1) []]
          (loaded_state False [(''1'', module_of (JStr ''A'')), (''2'', module_of (JStr ''C'')),
                               (''3'', module_of (JStr ''B''))] []))
     = Inl (TypeError ''filter is not a function'')"
    by (simp add: findBulk_def loaded_state_cache loaded_state_simps entries_def module_of_def
          sample_call_def splice1_def)
  from findBulk_second_match_in_first_slot [where call = sample_call and ?f0.0 = "JFun (External 0) []"
         and ?f1.0 = "JFun (External 1) []" and a = "JStr ''A''" and b = "JStr ''B''", OF _ _ _ _ _ _ c] t
  show ?thesis by (simp add: sample_call_def)
qed

text \<open>
  C6, as amended. \<open>findBulk\<close> without a filter always throws. With one filter it
  throws in a dev build (devtools open or not); in a production build it does what
  \<open>find\<close> does for that filter: it throws when the filter is no function, and
  otherwise returns a single value, no array: the first truthy match, or \<open>null\<close> after
  logging that no module was found.
\<close>

theorem findBulk_fewer_than_two:
  "findBulk call [] s = (Inl (Error ''Expected at least two filters.''), s)
   \<and> (IS_DEV s \<longrightarrow>
        findBulk call [flt] s = (Inl (Error ''bulk called with only one filter. Use find''), s))
   \<and> (\<not> IS_DEV s \<and> typeof flt \<noteq> ''function'' \<longrightarrow>
        findBulk call [flt] s
          = (Inl (Error (''Invalid filter. Expected a function got '' @ typeof flt)), s))
   \<and> (\<not> IS_DEV s \<and> typeof flt = ''function'' \<longrightarrow>
        findBulk call [flt] s
          = (case first_match call flt (entries (cache s)) of
               Some v \<Rightarrow> (Inr (Single v), s)
             | None \<Rightarrow>
                 (Inr (Single JNull),
                  logger Err (Error ''webpack.find found no module'') [LText ''Filter:'', LFilter [flt]] s)))"
proof (intro conjI impI)
  show "findBulk call [] s = (Inl (Error ''Expected at least two filters.''), s)"
    by (simp add: findBulk_def)
next
  assume "IS_DEV s"
  then show "findBulk call [flt] s = (Inl (Error ''bulk called with only one filter. Use find''), s)"
    by (simp add: findBulk_def)
next
  assume "\<not> IS_DEV s \<and> typeof flt \<noteq> ''function''"
  then show "findBulk call [flt] s
          = (Inl (Error (''Invalid filter. Expected a function got '' @ typeof flt)), s)"
    by (simp add: findBulk_def find_wp_def)
next
  assume a: "\<not> IS_DEV s \<and> typeof flt = ''function''"
  then have "\<not> strict s" by (simp add: strict_def)
  with a show "findBulk call [flt] s
          = (case first_match call flt (entries (cache s)) of
               Some v \<Rightarrow> (Inr (Single v), s)
             | None \<Rightarrow>
                 (Inr (Single JNull),
                  logger Err (Error ''webpack.find found no module'') [LText ''Filter:'', LFilter [flt]] s))"
    by (simp add: findBulk_def find_wp_function split: option.splits)
qed

text \<open>
  The theorem at no filter, at one filter in a dev build, and in a production build at
  \<open>null\<close> and at a function as the only filter.
\<close>

theorem findBulk_fewer_than_two_witness:
  "findBulk sample_call [] (initial_state False)
     = (Inl (Error ''Expected at least two filters.''), initial_state False)
   \<and> IS_DEV (initial_state True)
   \<and> findBulk sample_call [JFun (External 0) []] (initial_state True)
       = (Inl (Error ''bulk called with only one filter. Use find''), initial_state True)
   \<and> typeof JNull \<noteq> ''function''
   \<and> findBulk sample_call [JNull] (initial_state False)
       = (Inl (Error ''Invalid filter. Expected a function got object''), initial_state False)
   \<and> typeof (JFun (External 0) []) = ''function''
   \<and> findBulk sample_call [JFun (External 0) []] (loaded_state False [(''1'', module_of (JStr ''A''))] [])
       = (Inr (Single (JStr ''A'')), loaded_state False [(''1'', module_of (JStr ''A''))] [])"
  using findBulk_fewer_than_two [where call = sample_call and s = "initial_state False" and flt = JNull]
        findBulk_fewer_than_two [where call = sample_call and flt = "JFun (External 0) []" and s = "initial_state True"]
        findBulk_fewer_than_two [where call = sample_call and flt = "JFun (External 0) []"
          and s = "loaded_state False [(''1'', module_of (JStr ''A''))] []"]
  by (simp add: initial_state_def loaded_state_simps loaded_state_cache entries_def first_match_def
        candidates_def module_of_def sample_call_def)

text \<open>
  C6 as stated fails: in a production build a call with one filter is not rejected.
\<close>

theorem findBulk_one_filter_returns:
  "fst (findBulk sample_call [JFun (External 0) []]
          (loaded_state False [(''1'', module_of (JStr ''A''))] []))
     = Inr (Single (JStr ''A''))"
  by (simp add: findBulk_def find_wp_def loaded_state_cache loaded_state_simps entries_def
        module_of_def sample_call_def)

section \<open>Properties of initialisation, subscriptions and argument checks\<close>

lemma initWebpack_throws: "cache s \<noteq> None \<Longrightarrow> initWebpack instance s = (Inl (Thrown_string ''no.''), s)"
  by (simp add: initWebpack_def)

lemma initWebpack_calls_established: "cache s \<noteq> None \<Longrightarrow> initWebpack_calls is s = s"
  by (induction "is") (simp_all add: initWebpack_throws)

lemma initWebpack_success:
  "initWebpack instance s = (Inr True, s1) \<Longrightarrow> cache s = None \<and> (\<exists>w. wreq s1 = Some w \<and> cache s1 = Some (wreq_c w))"
  by (auto simp: initWebpack_def Let_def split: if_splits option.splits)

text \<open>
  C7. Once \<open>cache\<close> is set, \<open>_initWebpack\<close> throws and changes nothing. A call that
  returns \<open>true\<close> found \<open>cache\<close> unset and has set it to the registry of the loader;
  every call after it throws, and no sequence of later calls changes \<open>cache\<close> again.
  (The registry \<open>c\<close> of a loader is an object, by its type.)
\<close>

theorem initWebpack_once:
  "(cache s \<noteq> None \<longrightarrow> initWebpack instance s = (Inl (Thrown_string ''no.''), s))
   \<and> (initWebpack instance s = (Inr True, s1) \<longrightarrow>
        cache s = None
        \<and> (\<exists>w. wreq s1 = Some w \<and> cache s1 = Some (wreq_c w))
        \<and> (\<forall>again. initWebpack again s1 = (Inl (Thrown_string ''no.''), s1))
        \<and> (\<forall>later. cache (initWebpack_calls later s1) = cache s1))"
proof (intro conjI impI)
  assume "cache s \<noteq> None"
  then show "initWebpack instance s = (Inl (Thrown_string ''no.''), s)"
    by (rule initWebpack_throws)
next
  assume ok: "initWebpack instance s = (Inr True, s1)"
  from initWebpack_success [OF ok] show "cache s = None" by simp
  from initWebpack_success [OF ok] show "\<exists>w. wreq s1 = Some w \<and> cache s1 = Some (wreq_c w)" by simp
  from initWebpack_success [OF ok] have est: "cache s1 \<noteq> None" by auto
  show "\<forall>again. initWebpack again s1 = (Inl (Thrown_string ''no.''), s1)"
    using est by (simp add: initWebpack_throws)
  show "\<forall>later. cache (initWebpack_calls later s1) = cache s1"
    using est by (simp add: initWebpack_calls_established)
qed

text \<open>
  The theorem at a first call that meets a loader, followed by further calls.
\<close>

theorem initWebpack_once_witness:
  "initWebpack (Some (sample_instance [] [])) (initial_state False) = (Inr True, loaded_state False [] [])
   \<and> cache (loaded_state False [] []) = Some []
   \<and> initWebpack (Some (sample_instance [(''1'', module_of JNull)] [])) (loaded_state False [] [])
       = (Inl (Thrown_string ''no.''), loaded_state False [] [])
   \<and> cache (initWebpack_calls [None, Some (sample_instance [(''1'', module_of JNull)] [])] (loaded_state False [] []))
       = Some []"
proof -
  have ok: "initWebpack (Some (sample_instance [] [])) (initial_state False) = (Inr True, loaded_state False [] [])"
    by (simp add: loaded_state_def initWebpack_def initial_state_def Let_def)
  have est: "cache (loaded_state False [] []) \<noteq> None"
    by (simp add: loaded_state_cache)
  from initWebpack_once [of "loaded_state False [] []" "Some (sample_instance [(''1'', module_of JNull)] [])"]
       initWebpack_once [of "initial_state False" "Some (sample_instance [] [])" "loaded_state False [] []"]
       ok est
  show ?thesis by (simp add: loaded_state_cache)
qed

lemma waitFor_function:
  assumes "typeof flt = ''function''" and "typeof_callback cb = ''function''"
  shows "waitFor call flt cb isIndirect s =
     (let s1 = push_history (IS_DEV s \<and> \<not> isIndirect) ''waitFor'' [LFilter [flt]] s in
      case (if cache s = None then None else first_match call flt (entries (cache s))) of
        Some v \<Rightarrow> invoke call cb v s1
      | None \<Rightarrow> (Inr JUndefined, s1\<lparr>waitForSubscriptions := map_set flt cb (waitForSubscriptions s1)\<rparr>))"
proof -
  have c: "cache (push_history b k a s) = cache s" for b k a
    by (simp add: push_history_def)
  have f: "find_wp call flt True s' =
             (case first_match call flt (entries (cache s')) of Some v \<Rightarrow> (Inr v, s') | None \<Rightarrow> (Inr JNull, s'))" for s'
    using assms(1) by (simp add: find_wp_def find_scan_first_match split: option.splits)
  show ?thesis
    using assms
    by (auto simp: waitFor_def Let_def c f split: option.splits dest: first_match_Some)
qed

lemma call_supplied_subscriptions:
  "waitForSubscriptions (snd (call_supplied call f v s)) = waitForSubscriptions s"
  by (cases f) (simp_all add: call_supplied_def split: fn_code.splits)

lemma invoke_subscriptions:
  "waitForSubscriptions (snd (invoke call cb v s)) = waitForSubscriptions s"
proof (cases cb)
  case (Supplied f)
  then show ?thesis by (simp add: invoke_def call_supplied_subscriptions)
next
  case (ResolveComponent n parse pr)
  obtain r s1 where cs: "call_supplied call parse (case pr of None \<Rightarrow> v | Some p \<Rightarrow> js_get v p) s = (r, s1)"
    by (cases "call_supplied call parse (case pr of None \<Rightarrow> v | Some p \<Rightarrow> js_get v p) s")
  with call_supplied_subscriptions [of call parse "case pr of None \<Rightarrow> v | Some p \<Rightarrow> js_get v p" s]
  have "waitForSubscriptions s1 = waitForSubscriptions s" by simp
  with cs ResolveComponent show ?thesis
    by (cases r) (simp_all add: invoke_def Let_def split: option.splits)
next
  case (SetInnerValue n f)
  obtain r s1 where cs: "call_supplied call f v s = (r, s1)"
    by (cases "call_supplied call f v s")
  with call_supplied_subscriptions [of call f v s]
  have "waitForSubscriptions s1 = waitForSubscriptions s" by simp
  with cs SetInnerValue show ?thesis
    by (cases r) (simp_all add: invoke_def)
qed

lemma invoke_supplied_external:
  "invoke call (Supplied (JFun (External n) ps)) v s = (Inr (call n v), s\<lparr>invoked := invoked s @ [(n, v)]\<rparr>)"
  by (simp add: invoke_def call_supplied_def)

text \<open>
  C3, as amended. For a function \<open>flt\<close> and a function \<open>cb\<close>: when \<open>cache\<close> is
  set and the registry has a first truthy match \<open>v\<close> (as \<open>find\<close> searches),
  \<open>waitFor\<close> is the call of \<open>cb\<close> with \<open>v\<close> and \<open>waitForSubscriptions\<close> is
  unchanged; a callback supplied from outside is recorded as called once, with \<open>v\<close>.
  When \<open>cache\<close> is unset or there is no such match, no callback is called and the pair
  is stored in \<open>waitForSubscriptions\<close>.
\<close>

theorem waitFor_eager_or_pending:
  assumes "typeof flt = ''function''" and "typeof_callback cb = ''function''"
  shows "(cache s \<noteq> None \<and> first_match call flt (entries (cache s)) = Some v \<longrightarrow>
            waitFor call flt cb isIndirect s =
              invoke call cb v (push_history (IS_DEV s \<and> \<not> isIndirect) ''waitFor'' [LFilter [flt]] s)
            \<and> waitForSubscriptions (snd (waitFor call flt cb isIndirect s)) = waitForSubscriptions s
            \<and> (\<forall>n ps. cb = Supplied (JFun (External n) ps) \<longrightarrow>
                  fst (waitFor call flt cb isIndirect s) = Inr (call n v)
                  \<and> invoked (snd (waitFor call flt cb isIndirect s)) = invoked s @ [(n, v)]))
       \<and> (cache s = None \<or> first_match call flt (entries (cache s)) = None \<longrightarrow>
            waitFor call flt cb isIndirect s =
              (Inr JUndefined,
               (push_history (IS_DEV s \<and> \<not> isIndirect) ''waitFor'' [LFilter [flt]] s)
                 \<lparr>waitForSubscriptions := map_set flt cb (waitForSubscriptions s)\<rparr>)
            \<and> invoked (snd (waitFor call flt cb isIndirect s)) = invoked s)"
proof (intro conjI impI, goal_cases)
  case 1
  then show ?case using assms by (auto simp: waitFor_function Let_def)
next
  case 2
  then have "waitFor call flt cb isIndirect s =
      invoke call cb v (push_history (IS_DEV s \<and> \<not> isIndirect) ''waitFor'' [LFilter [flt]] s)"
    using assms by (auto simp: waitFor_function Let_def)
  then show ?case by (simp add: invoke_subscriptions push_history_def)
next
  case 3
  then have "waitFor call flt cb isIndirect s =
      invoke call cb v (push_history (IS_DEV s \<and> \<not> isIndirect) ''waitFor'' [LFilter [flt]] s)"
    using assms by (auto simp: waitFor_function Let_def)
  then show ?case by (auto simp: invoke_supplied_external push_history_def)
next
  case 4
  then show ?case using assms by (auto simp: waitFor_function Let_def push_history_def)
next
  case 5
  then show ?case using assms by (auto simp: waitFor_function Let_def push_history_def)
qed

text \<open>
  The theorem at a registry holding \<open>"A"\<close> (the callback is called with it) and at
  the state before initialisation (the pair is stored).
\<close>

theorem waitFor_eager_or_pending_witness:
  "typeof (JFun (External 0) []) = ''function''
   \<and> typeof_callback (Supplied (JFun (External 7) [])) = ''function''
   \<and> first_match sample_call (JFun (External 0) [])
        (entries (cache (loaded_state False [(''1'', module_of (JStr ''A''))] []))) = Some (JStr ''A'')
   \<and> waitFor sample_call (JFun (External 0) []) (Supplied (JFun (External 7) [])) False
        (loaded_state False [(''1'', module_of (JStr ''A''))] [])
       = (Inr JUndefined, (loaded_state False [(''1'', module_of (JStr ''A''))] [])\<lparr>invoked := [(7, JStr ''A'')]\<rparr>)
   \<and> cache (initial_state False) = None
   \<and> waitFor sample_call (JFun (External 0) []) (Supplied (JFun (External 7) [])) False
        (initial_state False)
       = (Inr JUndefined,
          (initial_state False)\<lparr>waitForSubscriptions := [(JFun (External 0) [], Supplied (JFun (External 7) []))]\<rparr>)"
proof -
  have h: "typeof (JFun (External 0) []) = ''function''" by simp
  have k: "typeof_callback (Supplied (JFun (External 7) [])) = ''function''" by simp
  have a: "cache (loaded_state False [(''1'', module_of (JStr ''A''))] []) \<noteq> None
           \<and> first_match sample_call (JFun (External 0) [])
                (entries (cache (loaded_state False [(''1'', module_of (JStr ''A''))] []))) = Some (JStr ''A'')"
    by (simp add: loaded_state_cache entries_def first_match_def candidates_def module_of_def sample_call_def)
  have b: "cache (initial_state False) = None"
    by (simp add: initial_state_def)
  from waitFor_eager_or_pending [OF h k, of "loaded_state False [(''1'', module_of (JStr ''A''))] []"
         sample_call "JStr ''A''" False] a
       waitFor_eager_or_pending [OF h k, of "initial_state False" sample_call "JStr ''A''" False] b
  show ?thesis
    by (simp add: push_history_def loaded_state_simps sample_call_def initial_state_def
          invoke_supplied_external)
qed

text \<open>
  C3 as stated fails: the registry is set and the default export \<open>false\<close> of its module
  satisfies \<open>m => m === false\<close>, but the callback is not called and the pair is stored.
\<close>

theorem waitFor_subscribes_despite_match:
  "cache (loaded_state False [(''1'', module_of (JObj [(''default'', JBool False)]))] []) \<noteq> None
   \<and> truthy (apply_fn sample_call (JFun (External 2) [])
               (js_get (exports (module_of (JObj [(''default'', JBool False)]))) ''default''))
   \<and> invoked (snd (waitFor sample_call (JFun (External 2) []) (Supplied (JFun (External 7) [])) False
                     (loaded_state False [(''1'', module_of (JObj [(''default'', JBool False)]))] []))) = []
   \<and> waitForSubscriptions
        (snd (waitFor sample_call (JFun (External 2) []) (Supplied (JFun (External 7) [])) False
                (loaded_state False [(''1'', module_of (JObj [(''default'', JBool False)]))] [])))
       = [(JFun (External 2) [], Supplied (JFun (External 7) []))]"
  by (simp add: waitFor_def find_wp_def push_history_def loaded_state_cache loaded_state_simps
        entries_def module_of_def sample_call_def)

text \<open>
  C8, as amended. A filter that is not a function makes \<open>find\<close>, \<open>findAll\<close>,
  \<open>waitFor\<close>, \<open>findComponent\<close> and \<open>proxyInnerWaitFor\<close> throw at once, in every
  build, with the state unchanged. With a function as filter, a callback that is not a
  function makes \<open>waitFor\<close> throw likewise; it makes \<open>findComponent\<close> (its
  \<open>parse\<close>) and \<open>proxyInnerWaitFor\<close> throw unless it is \<open>undefined\<close>, which
  selects the default \<open>m => m\<close>.
\<close>

theorem invalid_argument_rejected:
  "(typeof flt \<noteq> ''function'' \<longrightarrow>
      find_wp call flt isIndirect s
        = (Inl (Error (''Invalid filter. Expected a function got '' @ typeof flt)), s)
      \<and> findAll call flt s
        = (Inl (Error (''Invalid filter. Expected a function got '' @ typeof flt)), s)
      \<and> waitFor call flt cb isIndirect s
        = (Inl (Error (''Invalid filter. Expected a function got '' @ typeof flt)), s)
      \<and> findComponent call flt v isIndirect s
        = (Inl (Error (''Invalid filter. Expected a function got '' @ typeof flt)), s)
      \<and> proxyInnerWaitFor call flt v isIndirect s
        = (Inl (Error (''Invalid filter. Expected a function got '' @ typeof flt)), s))
   \<and> (typeof flt = ''function'' \<and> typeof v \<noteq> ''function'' \<longrightarrow>
      waitFor call flt (Supplied v) isIndirect s
        = (Inl (Error (''Invalid callback. Expected a function got '' @ typeof v)), s)
      \<and> (v \<noteq> JUndefined \<longrightarrow>
           findComponent call flt v isIndirect s
             = (Inl (Error (''Invalid component parse. Expected a function got '' @ typeof v)), s)
           \<and> proxyInnerWaitFor call flt v isIndirect s
             = (Inl (Error (''Invalid callback. Expected a function got '' @ typeof v)), s)))"
  by (simp add: find_wp_def findAll_def waitFor_def findComponent_def proxyInnerWaitFor_def
        default_identity_def Let_def)

text \<open>
  The theorem at a string passed as filter and at \<open>null\<close> passed as callback.
\<close>

theorem invalid_argument_rejected_witness:
  "typeof (JStr ''x'') \<noteq> ''function''
   \<and> find_wp sample_call (JStr ''x'') False (initial_state True)
       = (Inl (Error ''Invalid filter. Expected a function got string''), initial_state True)
   \<and> proxyInnerWaitFor sample_call (JStr ''x'') JUndefined False (initial_state False)
       = (Inl (Error ''Invalid filter. Expected a function got string''), initial_state False)
   \<and> typeof (JFun (External 0) []) = ''function''
   \<and> JNull \<noteq> JUndefined
   \<and> waitFor sample_call (JFun (External 0) []) (Supplied JNull) False (initial_state False)
       = (Inl (Error ''Invalid callback. Expected a function got object''), initial_state False)
   \<and> findComponent sample_call (JFun (External 0) []) JNull False (initial_state False)
       = (Inl (Error ''Invalid component parse. Expected a function got object''), initial_state False)"
  using invalid_argument_rejected [of "JStr ''x''" sample_call False "initial_state True" "Supplied JNull" JUndefined]
        invalid_argument_rejected [of "JStr ''x''" sample_call False "initial_state False" "Supplied JNull" JUndefined]
        invalid_argument_rejected [of "JFun (External 0) []" sample_call False "initial_state False" "Supplied JNull" JNull]
  by simp

text \<open>
  C8 as stated fails: \<open>undefined\<close> is not a function, and passed as the callback of
  \<open>proxyInnerWaitFor\<close> or the \<open>parse\<close> of \<open>findComponent\<close> it does not throw.
\<close>

theorem undefined_callback_takes_default:
  "typeof JUndefined = ''undefined''
   \<and> fst (proxyInnerWaitFor sample_call (JFun (External 0) []) JUndefined False (initial_state False))
       = Inr (Proxy 0)
   \<and> fst (findComponent sample_call (JFun (External 0) []) JUndefined False (initial_state False))
       = Inr (Wrapper 0)"
  by (simp add: proxyInnerWaitFor_def findComponent_def bind_component_def waitFor_def proxyInner_def
        default_identity_def push_history_def initial_state_def Let_def NoopComponent_def)

section \<open>Properties of chunk loading\<close>

lemma findModuleFactory_eq:
  assumes "wreq s = Some w"
  shows "findModuleFactory code s =
     (case findModuleId_scan code (wreq_m w) of
        None \<Rightarrow>
          if IS_DEV s then (if \<not> devToolsOpen s then (Inl (no_module_with_code code), s) else (Inr None, s))
          else (Inr None, logger Warn (no_module_with_code code) [] s)
      | Some ident \<Rightarrow>
          if ident = [] then (Inr None, s) else (Inr (map_of (wreq_m w) ident), s))"
  using assms
  by (simp add: findModuleFactory_def findModuleId_def Let_def logger_def split: option.splits)

lemma warn_chunks_fields:
  "IS_DEV (warn_chunks e code matcher s) = IS_DEV s"
  "devToolsOpen (warn_chunks e code matcher s) = devToolsOpen s"
  "el_calls (warn_chunks e code matcher s) = el_calls s"
  "wreq (warn_chunks e code matcher s) = wreq s"
  by (simp_all add: warn_chunks_def logger_def)

lemma throw_if_strict_eq:
  "throw_if_strict e (warn_chunks e code matcher s) =
     (if strict s then Inl e else Inr JUndefined, warn_chunks e code matcher s)"
  by (simp add: throw_if_strict_def strict_def warn_chunks_fields)

lemma extract_no_factory:
  assumes "wreq s = Some w" and "findModuleId_scan code (wreq_m w) = None"
  shows "extractAndLoadChunks exec toNumber code matcher s =
        (if strict s then (Inl (no_module_with_code code), s)
         else (Inr JUndefined,
               warn_chunks no_module_factory code matcher
                 (if IS_DEV s then s else logger Warn (no_module_with_code code) [] s)))"
  using assms
  by (simp add: extractAndLoadChunks_def findModuleFactory_eq strict_def)

lemma extract_empty_id:
  assumes "wreq s = Some w" and "findModuleId_scan code (wreq_m w) = Some []"
  shows "extractAndLoadChunks exec toNumber code matcher s =
           (Inr JUndefined, warn_chunks no_module_factory code matcher s)"
  using assms
  by (simp add: extractAndLoadChunks_def findModuleFactory_eq)

lemma extract_no_match:
  assumes "wreq s = Some w" and "findModuleId_scan code (wreq_m w) = Some ident" and "ident \<noteq> []"
    and "map_of (wreq_m w) ident = Some factory" and "exec matcher factory = None"
  shows "extractAndLoadChunks exec toNumber code matcher s =
           (if strict s then Inl no_entry_point else Inr JUndefined,
            warn_chunks no_entry_point code matcher s)"
  using assms
  by (simp add: extractAndLoadChunks_def findModuleFactory_eq throw_if_strict_eq)

lemma extract_bad_capture:
  assumes "wreq s = Some w" and "findModuleId_scan code (wreq_m w) = Some ident" and "ident \<noteq> []"
    and "map_of (wreq_m w) ident = Some factory" and "exec matcher factory = Some match"
    and "length match \<le> 1 \<or> match ! 1 = None \<or> match ! 1 = Some []
         \<or> (\<exists>cid. match ! 1 = Some cid \<and> \<not> truthy (toNumber cid))"
  shows "extractAndLoadChunks exec toNumber code matcher s =
           (if strict s then Inl bad_entry_point else Inr JUndefined,
            warn_chunks bad_entry_point code matcher s)"
  using assms
  by (auto simp: extractAndLoadChunks_def findModuleFactory_eq throw_if_strict_eq split: option.splits)

text \<open>
  C4, as amended. With the loader present: when no factory contains the code,
  \<open>findModuleId\<close> throws in strict mode (dev build, devtools closed) before anything
  is logged; otherwise \<open>extractAndLoadChunks\<close> logs a warning with code and matcher and
  returns \<open>undefined\<close> (so too, in every mode, when the factory found has the empty
  id). When the matcher does not match the factory, or the match has no first group, an
  empty one, or one whose \<open>Number\<close> is falsy, the warning with code and matcher is
  logged and the call returns \<open>undefined\<close>, or throws the error in strict mode.
\<close>

theorem extractAndLoadChunks_failures:
  assumes "wreq s = Some w"
  shows
   "(findModuleId_scan code (wreq_m w) = None \<longrightarrow>
       extractAndLoadChunks exec toNumber code matcher s =
         (if strict s then (Inl (no_module_with_code code), s)
          else (Inr JUndefined,
                warn_chunks no_module_factory code matcher
                  (if IS_DEV s then s else logger Warn (no_module_with_code code) [] s))))
    \<and> (findModuleId_scan code (wreq_m w) = Some [] \<longrightarrow>
       extractAndLoadChunks exec toNumber code matcher s =
         (Inr JUndefined, warn_chunks no_module_factory code matcher s))
    \<and> (findModuleId_scan code (wreq_m w) = Some ident \<and> ident \<noteq> []
        \<and> map_of (wreq_m w) ident = Some factory \<and> exec matcher factory = None \<longrightarrow>
       extractAndLoadChunks exec toNumber code matcher s =
         (if strict s then Inl no_entry_point else Inr JUndefined,
          warn_chunks no_entry_point code matcher s))
    \<and> (findModuleId_scan code (wreq_m w) = Some ident \<and> ident \<noteq> []
        \<and> map_of (wreq_m w) ident = Some factory \<and> exec matcher factory = Some match
        \<and> (length match \<le> 1 \<or> match ! 1 = None \<or> match ! 1 = Some []
             \<or> (\<exists>cid. match ! 1 = Some cid \<and> \<not> truthy (toNumber cid))) \<longrightarrow>
       extractAndLoadChunks exec toNumber code matcher s =
         (if strict s then Inl bad_entry_point else Inr JUndefined,
          warn_chunks bad_entry_point code matcher s))"
proof (intro conjI impI, goal_cases)
  case 1
  then show ?case by (rule extract_no_factory [OF assms])
next
  case 2
  then show ?case by (rule extract_empty_id [OF assms])
next
  case 3
  then show ?case
    using assms by (intro extract_no_match [where w = w and ident = ident and factory = factory]) auto
next
  case 4
  then show ?case
    using assms
    by (intro extract_bad_capture [where w = w and ident = ident and factory = factory and match = match]) auto
qed

text \<open>
  C9, as amended. When the factory is found, the matcher matches and \<open>Number\<close> of the
  captured id is 0 or \<open>NaN\<close>, the capture is treated as invalid: the warning is logged,
  the chunk loader is not called, and the call returns \<open>undefined\<close>, or in strict mode
  throws the error.
\<close>

theorem zero_or_NaN_capture_never_loads:
  assumes "wreq s = Some w" and "findModuleId_scan code (wreq_m w) = Some ident" and "ident \<noteq> []"
    and "map_of (wreq_m w) ident = Some factory" and "exec matcher factory = Some match"
    and "1 < length match" and "match ! 1 = Some cid"
    and "toNumber cid = JNum 0 \<or> toNumber cid = JNaN"
  shows "extractAndLoadChunks exec toNumber code matcher s =
           (if strict s then Inl bad_entry_point else Inr JUndefined,
            warn_chunks bad_entry_point code matcher s)
         \<and> el_calls (snd (extractAndLoadChunks exec toNumber code matcher s)) = el_calls s"
proof -
  from assms(8) have "\<not> truthy (toNumber cid)" by auto
  with assms(7) have "\<exists>cid. match ! 1 = Some cid \<and> \<not> truthy (toNumber cid)" by blast
  then have "extractAndLoadChunks exec toNumber code matcher s =
           (if strict s then Inl bad_entry_point else Inr JUndefined,
            warn_chunks bad_entry_point code matcher s)"
    using assms(1-5)
    by (intro extract_bad_capture [where w = w and ident = ident and factory = factory and match = match]) auto
  then show ?thesis by (simp add: warn_chunks_fields)
qed

lemma sample_facts:
  "wreq_m (sample_instance R fs) = fs"
  "wreq_c (sample_instance R fs) = R"
  "wreq_el (sample_instance R fs) ident = None"
  "wreq_require (sample_instance R fs) ident = JStr ident"
  by (simp_all add: sample_instance_def)

lemma strict_loaded_state: "strict (loaded_state dev R fs) = dev"
  by (simp add: strict_def loaded_state_simps)

lemma Number_digits_zero: "Number_digits ''0'' = JNum 0"
  by (simp add: Number_digits_def)

text \<open>
  The theorem in a production build: code that no factory has, a matcher that does not
  match, and the capture \<open>0\<close>; and in a dev build at a factory with the empty id.
\<close>

theorem extractAndLoadChunks_failures_witness:
  "wreq (loaded_state False [] [(''7'', ''e.el(0)'')]) = Some (sample_instance [] [(''7'', ''e.el(0)'')])
   \<and> findModuleId_scan [''zz''] (wreq_m (sample_instance [] [(''7'', ''e.el(0)'')])) = None
   \<and> extractAndLoadChunks sample_exec Number_digits [''zz''] ''el[(]([0-9]+)[)]''
        (loaded_state False [] [(''7'', ''e.el(0)'')])
       = (Inr JUndefined,
          warn_chunks no_module_factory [''zz''] ''el[(]([0-9]+)[)]''
            (logger Warn (no_module_with_code [''zz'']) [] (loaded_state False [] [(''7'', ''e.el(0)'')])))
   \<and> findModuleId_scan [''el''] (wreq_m (sample_instance [] [(''7'', ''e.el(0)'')])) = Some ''7''
   \<and> map_of (wreq_m (sample_instance [] [(''7'', ''e.el(0)'')])) ''7'' = Some ''e.el(0)''
   \<and> sample_exec ''no match'' ''e.el(0)'' = None
   \<and> extractAndLoadChunks sample_exec Number_digits [''el''] ''no match''
        (loaded_state False [] [(''7'', ''e.el(0)'')])
       = (Inr JUndefined,
          warn_chunks no_entry_point [''el''] ''no match'' (loaded_state False [] [(''7'', ''e.el(0)'')]))
   \<and> sample_exec ''el[(]([0-9]+)[)]'' ''e.el(0)'' = Some [Some ''el(0)'', Some ''0'']
   \<and> \<not> truthy (Number_digits ''0'')
   \<and> extractAndLoadChunks sample_exec Number_digits [''el''] ''el[(]([0-9]+)[)]''
        (loaded_state False [] [(''7'', ''e.el(0)'')])
       = (Inr JUndefined,
          warn_chunks bad_entry_point [''el''] ''el[(]([0-9]+)[)]'' (loaded_state False [] [(''7'', ''e.el(0)'')]))
   \<and> findModuleId_scan [''el''] (wreq_m (sample_instance [] [([], ''e.el(0)'')])) = Some []
   \<and> extractAndLoadChunks sample_exec Number_digits [''el''] ''el[(]([0-9]+)[)]''
        (loaded_state True [] [([], ''e.el(0)'')])
       = (Inr JUndefined,
          warn_chunks no_module_factory [''el''] ''el[(]([0-9]+)[)]'' (loaded_state True [] [([], ''e.el(0)'')]))"
proof -
  have w: "wreq (loaded_state False [] [(''7'', ''e.el(0)'')]) = Some (sample_instance [] [(''7'', ''e.el(0)'')])"
    by (simp add: loaded_state_simps)
  have ex: "sample_exec ''el[(]([0-9]+)[)]'' ''e.el(0)'' = Some [Some ''el(0)'', Some ''0'']"
    by (simp add: sample_exec_def)
  have w': "wreq (loaded_state True [] [([], ''e.el(0)'')]) = Some (sample_instance [] [([], ''e.el(0)'')])"
    by (simp add: loaded_state_simps)
  from extractAndLoadChunks_failures [OF w', where code = "[''el'']" and exec = sample_exec
          and toNumber = Number_digits and matcher = "''el[(]([0-9]+)[)]''"]
       extractAndLoadChunks_failures [OF w, where code = "[''zz'']" and exec = sample_exec
          and toNumber = Number_digits and matcher = "''el[(]([0-9]+)[)]''"]
       extractAndLoadChunks_failures [OF w, where code = "[''el'']" and exec = sample_exec
          and toNumber = Number_digits and matcher = "''no match''" and ident = "''7''"
          and factory = "''e.el(0)''"]
       extractAndLoadChunks_failures [OF w, where code = "[''el'']" and exec = sample_exec
          and toNumber = Number_digits and matcher = "''el[(]([0-9]+)[)]''" and ident = "''7''"
          and factory = "''e.el(0)''" and match = "[Some ''el(0)'', Some ''0'']"]
       w ex
  show ?thesis
    by (simp add: sample_facts strict_loaded_state loaded_state_simps Number_digits_zero sample_exec_def)
qed

text \<open>
  C4 as stated fails: in strict mode a missing factory throws with nothing logged.
\<close>

theorem missing_factory_throws_unlogged:
  "strict (loaded_state True [] [(''7'', ''e.el(0)'')])
   \<and> findModuleId_scan [''zz''] (wreq_m (sample_instance [] [(''7'', ''e.el(0)'')])) = None
   \<and> extractAndLoadChunks sample_exec Number_digits [''zz''] ''el[(]([0-9]+)[)]''
        (loaded_state True [] [(''7'', ''e.el(0)'')])
       = (Inl (no_module_with_code [''zz'']), loaded_state True [] [(''7'', ''e.el(0)'')])
   \<and> logged (loaded_state True [] [(''7'', ''e.el(0)'')]) = []"
  by (simp add: extractAndLoadChunks_def findModuleFactory_def findModuleId_def sample_facts
        strict_loaded_state loaded_state_simps)

text \<open>
  The theorem at the captured id \<open>0\<close> in a production build.
\<close>

theorem zero_or_NaN_capture_never_loads_witness:
  "Number_digits ''0'' = JNum 0
   \<and> extractAndLoadChunks sample_exec Number_digits [''el''] ''el[(]([0-9]+)[)]''
        (loaded_state False [] [(''7'', ''e.el(0)'')])
       = (Inr JUndefined,
          warn_chunks bad_entry_point [''el''] ''el[(]([0-9]+)[)]'' (loaded_state False [] [(''7'', ''e.el(0)'')]))
   \<and> el_calls (snd (extractAndLoadChunks sample_exec Number_digits [''el''] ''el[(]([0-9]+)[)]''
        (loaded_state False [] [(''7'', ''e.el(0)'')]))) = []"
proof -
  have w: "wreq (loaded_state False [] [(''7'', ''e.el(0)'')]) = Some (sample_instance [] [(''7'', ''e.el(0)'')])"
    by (simp add: loaded_state_simps)
  have sc: "findModuleId_scan [''el''] (wreq_m (sample_instance [] [(''7'', ''e.el(0)'')])) = Some ''7''"
    by (simp add: sample_facts)
  have ne: "''7'' \<noteq> []" by simp
  have fa: "map_of (wreq_m (sample_instance [] [(''7'', ''e.el(0)'')])) ''7'' = Some ''e.el(0)''"
    by (simp add: sample_facts)
  have ex: "sample_exec ''el[(]([0-9]+)[)]'' ''e.el(0)'' = Some [Some ''el(0)'', Some ''0'']"
    by (simp add: sample_exec_def)
  have le: "1 < length [Some ''el(0)'', Some ''0'']" by simp
  have ca: "[Some ''el(0)'', Some ''0''] ! 1 = Some ''0''" by simp
  have nu: "Number_digits ''0'' = JNum 0 \<or> Number_digits ''0'' = JNaN"
    by (simp add: Number_digits_zero)
  from zero_or_NaN_capture_never_loads [where exec = sample_exec and toNumber = Number_digits
         and matcher = "''el[(]([0-9]+)[)]''" and factory = "''e.el(0)''" and cid = "''0''",
         OF w sc ne fa ex le ca nu]
  show ?thesis
    by (simp add: strict_loaded_state loaded_state_simps Number_digits_zero warn_chunks_fields)
qed

text \<open>
  C9 as stated fails: in strict mode the captured id \<open>0\<close> makes the call throw, not
  return \<open>undefined\<close>.
\<close>

theorem zero_capture_throws_in_strict_mode:
  "Number_digits ''0'' = JNum 0
   \<and> sample_exec ''el[(]([0-9]+)[)]'' ''e.el(0)'' = Some [Some ''el(0)'', Some ''0'']
   \<and> fst (extractAndLoadChunks sample_exec Number_digits [''el''] ''el[(]([0-9]+)[)]''
        (loaded_state True [] [(''7'', ''e.el(0)'')]))
       = Inl bad_entry_point"
  by (simp add: extractAndLoadChunks_def findModuleFactory_def findModuleId_def sample_facts
        strict_loaded_state loaded_state_simps Number_digits_zero sample_exec_def throw_if_strict_eq)

section \<open>Properties of lazy components\<close>







end
